theory Spec2Isabelle
  imports Complex_Main "HOL-Library.Monad_Syntax"
begin

section \<open>The scanner and parser of toy.cpp\<close>

subsection \<open>Tokens, characters and the program state\<close>

text \<open>
  The scanner returns an \<open>int\<close>: the character itself for an unknown character, otherwise
  one of the negative markers of \<open>enum Token\<close>. \<open>EOF\<close> is the value \<open>getchar\<close> returns
  at the end of the stream.
\<close>

abbreviation tok_eof :: int where "tok_eof \<equiv> - 1"
abbreviation tok_def :: int where "tok_def \<equiv> - 2"
abbreviation tok_extern :: int where "tok_extern \<equiv> - 3"
abbreviation tok_identifier :: int where "tok_identifier \<equiv> - 4"
abbreviation tok_number :: int where "tok_number \<equiv> - 5"

abbreviation EOF :: int where "EOF \<equiv> - 1"

text \<open>
  The globals of the translation unit, the function-local static \<open>LastChar\<close> of
  \<open>gettok\<close>, and the characters of standard input that have not been read yet.
  \<open>NumVal\<close> is a C \<open>double\<close>: the type \<open>'d\<close> stands for the values of that type.
\<close>

record 'd state =
  input :: string
  LastChar :: int
  IdentifierStr :: string
  NumVal :: 'd
  CurTok :: int
  BinopPrecedence :: "char \<rightharpoonup> int"

text \<open>\<open>getchar\<close>: the next character as an \<open>unsigned char\<close> value, or \<open>EOF\<close>.\<close>

definition getchar :: "'d state \<Rightarrow> int \<times> 'd state" where
  "getchar s = (case input s of
                  [] \<Rightarrow> (EOF, s)
                | c # cs \<Rightarrow> (of_char c, s\<lparr>input := cs\<rparr>))"

text \<open>The classification functions of \<open><cctype>\<close> in the C locale.\<close>

definition isspace :: "int \<Rightarrow> bool" where
  "isspace c \<longleftrightarrow> c = 32 \<or> (9 \<le> c \<and> c \<le> 13)"

definition isdigit :: "int \<Rightarrow> bool" where
  "isdigit c \<longleftrightarrow> 48 \<le> c \<and> c \<le> 57"

definition isalpha :: "int \<Rightarrow> bool" where
  "isalpha c \<longleftrightarrow> (65 \<le> c \<and> c \<le> 90) \<or> (97 \<le> c \<and> c \<le> 122)"

definition isalnum :: "int \<Rightarrow> bool" where
  "isalnum c \<longleftrightarrow> isalpha c \<or> isdigit c"

definition isascii :: "int \<Rightarrow> bool" where
  "isascii c \<longleftrightarrow> 0 \<le> c \<and> c \<le> 127"

text \<open>
  \<open>strtod\<close> belongs to the C library and not to the program. Every routine that
  scans takes it as the parameter \<open>strtod\<close>, a function from the text to the
  \<open>double\<close> it converts to, about which nothing is assumed.
\<close>

subsection \<open>The scanner\<close>

text \<open>\<open>while (isspace(LastChar)) LastChar = getchar();\<close>\<close>

function skip_space :: "'d state \<Rightarrow> 'd state" where
  "skip_space s =
     (if isspace (LastChar s)
      then (case getchar s of (c, s1) \<Rightarrow> skip_space (s1\<lparr>LastChar := c\<rparr>))
      else s)"
  by pat_completeness auto
termination
  by (relation "measure (\<lambda>s. 2 * length (input s) + (if isspace (LastChar s) then 1 else 0))")
     (auto simp: getchar_def isspace_def split: list.splits)

declare skip_space.simps [simp del]

text \<open>\<open>while (isalnum(LastChar = getchar())) IdentifierStr += LastChar;\<close>\<close>

function ident_loop :: "'d state \<Rightarrow> 'd state" where
  "ident_loop s =
     (case getchar s of (c, s1) \<Rightarrow>
        (let s2 = s1\<lparr>LastChar := c\<rparr>
         in if isalnum c
            then ident_loop (s2\<lparr>IdentifierStr := IdentifierStr s2 @ [char_of c]\<rparr>)
            else s2))"
  by pat_completeness auto
termination
  by (relation "measure (\<lambda>s. length (input s))")
     (auto simp: getchar_def isalnum_def isalpha_def isdigit_def split: list.splits)

declare ident_loop.simps [simp del]

text \<open>
  \<open>do { NumStr += LastChar; LastChar = getchar(); } while (isdigit(LastChar) || LastChar == '.');\<close>
\<close>

function num_loop :: "string \<Rightarrow> 'd state \<Rightarrow> string \<times> 'd state" where
  "num_loop NumStr s =
     (let NumStr' = NumStr @ [char_of (LastChar s)]
      in case getchar s of (c, s1) \<Rightarrow>
           (let s2 = s1\<lparr>LastChar := c\<rparr>
            in if isdigit c \<or> c = 46 then num_loop NumStr' s2 else (NumStr', s2)))"
  by pat_completeness auto
termination
  by (relation "measure (\<lambda>(n, s). length (input s))")
     (auto simp: getchar_def isdigit_def split: list.splits)

declare num_loop.simps [simp del]

text \<open>
  \<open>do {} while (LastChar != EOF && LastChar != '\n' && LastChar != '\r');\<close>
  The body is empty, so nothing the condition reads ever changes.
\<close>

partial_function (option) comment_loop :: "'d state \<Rightarrow> 'd state option" where
  "comment_loop s =
     (if LastChar s \<noteq> EOF \<and> LastChar s \<noteq> 10 \<and> LastChar s \<noteq> 13
      then comment_loop s
      else Some s)"

text \<open>The end of \<open>gettok\<close>: the end-of-stream test and the single-character token.\<close>

definition gettok_char :: "'d state \<Rightarrow> int \<times> 'd state" where
  "gettok_char s =
     (if LastChar s = EOF then (tok_eof, s)
      else (let ThisChar = LastChar s
            in case getchar s of (c, s1) \<Rightarrow> (ThisChar, s1\<lparr>LastChar := c\<rparr>)))"

text \<open>\<open>gettok\<close>; \<open>None\<close> is a call that never returns.\<close>

partial_function (option) gettok ::
  "(string \<Rightarrow> 'd) \<Rightarrow> 'd state
     \<Rightarrow> (int \<times> 'd state) option" where
  "gettok strtod s0 =
     (let s = skip_space s0
      in if isalpha (LastChar s) then
           (let s1 = ident_loop (s\<lparr>IdentifierStr := [char_of (LastChar s)]\<rparr>)
            in if IdentifierStr s1 = ''def'' then Some (tok_def, s1)
               else if IdentifierStr s1 = ''extern'' then Some (tok_extern, s1)
               else Some (tok_identifier, s1))
         else if isdigit (LastChar s) \<or> LastChar s = 46 then
           (case num_loop [] s of (NumStr, s1) \<Rightarrow>
              Some (tok_number, s1\<lparr>NumVal := strtod NumStr\<rparr>))
         else if LastChar s = 35 then
           Option.bind (comment_loop s)
             (\<lambda>s1. if LastChar s1 \<noteq> EOF then gettok strtod s1 else Some (gettok_char s1))
         else Some (gettok_char s))"

declare comment_loop.simps [code]
declare gettok.simps [code]

definition getNextToken ::
  "(string \<Rightarrow> 'd) \<Rightarrow> 'd state
     \<Rightarrow> (int \<times> 'd state) option" where
  "getNextToken strtod s =
     map_option (\<lambda>(t, s1). (t, s1\<lparr>CurTok := t\<rparr>)) (gettok strtod s)"

subsection \<open>The syntax tree\<close>

datatype 'd ExprAST =
    NumberExprAST 'd
  | VariableExprAST string
  | BinaryExprAST char "'d ExprAST" "'d ExprAST"
  | CallExprAST string "'d ExprAST list"

datatype PrototypeAST = PrototypeAST string "string list"

datatype 'd FunctionAST = FunctionAST PrototypeAST "'d ExprAST"

text \<open>
  \<open>Error\<close>, \<open>ErrorP\<close> and \<open>ErrorF\<close> print the message and return the null pointer: the
  model returns the message in place of a node.
\<close>

definition Error :: "string \<Rightarrow> string + 'a" where
  "Error Str = Inl Str"

abbreviation ErrorP :: "string \<Rightarrow> string + PrototypeAST" where
  "ErrorP \<equiv> Error"

abbreviation ErrorF :: "string \<Rightarrow> string + 'd FunctionAST" where
  "ErrorF \<equiv> Error"

subsection \<open>Operator precedence\<close>

text \<open>
  \<open>operator[]\<close> of \<open>std::map<char, int>\<close>: a key that is not in the map is inserted
  with a value-initialised \<open>int\<close> before its value is returned.
\<close>

definition map_subscript ::
  "(char \<rightharpoonup> int) \<Rightarrow> char
     \<Rightarrow> int \<times> (char \<rightharpoonup> int)" where
  "map_subscript m k = (case m k of None \<Rightarrow> (0, m(k \<mapsto> 0)) | Some v \<Rightarrow> (v, m))"

definition GetTokPrecedence :: "'d state \<Rightarrow> int \<times> 'd state" where
  "GetTokPrecedence s =
     (if \<not> isascii (CurTok s) then (- 1, s)
      else (case map_subscript (BinopPrecedence s) (char_of (CurTok s)) of
              (TokPrec, m) \<Rightarrow>
                (let s1 = s\<lparr>BinopPrecedence := m\<rparr>
                 in if TokPrec < 0 then (- 1, s1) else (TokPrec, s1))))"

subsection \<open>The parser\<close>

text \<open>
  Every parse routine returns the node or the message of the failure, with the state
  it leaves behind. The routines call each other recursively on the state the previous
  call returned, so each takes a bound on the depth of calls below it; \<open>None\<close> is a run
  that did not return within the bound, or whose scanner never returns.
\<close>

definition ParseNumber ::
  "(string \<Rightarrow> 'd) \<Rightarrow> 'd state
     \<Rightarrow> ((string + 'd ExprAST) \<times> 'd state) option" where
  "ParseNumber strtod s =
     (let Result = NumberExprAST (NumVal s)
      in do { (_, s1) \<leftarrow> getNextToken strtod s; Some (Inr Result, s1) })"

fun ParsePrimary ::
  "(string \<Rightarrow> 'd) \<Rightarrow> nat \<Rightarrow> 'd state
     \<Rightarrow> ((string + 'd ExprAST) \<times> 'd state) option"
and ParseBinOpRHS ::
  "(string \<Rightarrow> 'd) \<Rightarrow> nat \<Rightarrow> int \<Rightarrow> 'd ExprAST \<Rightarrow> 'd state
     \<Rightarrow> ((string + 'd ExprAST) \<times> 'd state) option"
and ParseExpression ::
  "(string \<Rightarrow> 'd) \<Rightarrow> nat \<Rightarrow> 'd state
     \<Rightarrow> ((string + 'd ExprAST) \<times> 'd state) option"
and ParseParenExpr ::
  "(string \<Rightarrow> 'd) \<Rightarrow> nat \<Rightarrow> 'd state
     \<Rightarrow> ((string + 'd ExprAST) \<times> 'd state) option"
and ParseIdentifierExpr ::
  "(string \<Rightarrow> 'd) \<Rightarrow> nat \<Rightarrow> 'd state
     \<Rightarrow> ((string + 'd ExprAST) \<times> 'd state) option"
and ParseIdentifierExpr_args ::
      "(string \<Rightarrow> 'd) \<Rightarrow> nat \<Rightarrow> 'd ExprAST list \<Rightarrow> 'd state
         \<Rightarrow> ((string + 'd ExprAST list) \<times> 'd state) option"
where
  "ParsePrimary strtod 0 s = None"
| "ParsePrimary strtod (Suc n) s =
     (if CurTok s = tok_identifier then ParseIdentifierExpr strtod n s
      else if CurTok s = tok_number then ParseNumber strtod s
      else if CurTok s = 40 then ParseParenExpr strtod n s
      else Some (Error ''unknown token when expecting an expression'', s))"
| "ParseBinOpRHS strtod 0 ExprPrec LHS s = None"
| "ParseBinOpRHS strtod (Suc n) ExprPrec LHS s =
     (case GetTokPrecedence s of (TokPrec, s1) \<Rightarrow>
        if TokPrec < ExprPrec then Some (Inr LHS, s1)
        else (let BinOp = CurTok s1 in
          do {
            (_, s2) \<leftarrow> getNextToken strtod s1;
            (r, s3) \<leftarrow> ParsePrimary strtod n s2;
            case r of
              Inl e \<Rightarrow> Some (Inl e, s3)
            | Inr RHS \<Rightarrow>
                (case GetTokPrecedence s3 of (NextPrec, s4) \<Rightarrow>
                   if TokPrec < NextPrec then
                     do {
                       (r', s5) \<leftarrow> ParseBinOpRHS strtod n (TokPrec + 1) RHS s4;
                       case r' of
                         Inl e \<Rightarrow> Some (Inl e, s5)
                       | Inr RHS' \<Rightarrow>
                           ParseBinOpRHS strtod n ExprPrec (BinaryExprAST (char_of BinOp) LHS RHS') s5
                     }
                   else ParseBinOpRHS strtod n ExprPrec (BinaryExprAST (char_of BinOp) LHS RHS) s4)
          }))"
| "ParseExpression strtod 0 s = None"
| "ParseExpression strtod (Suc n) s =
     do {
       (r, s1) \<leftarrow> ParsePrimary strtod n s;
       case r of
         Inl e \<Rightarrow> Some (Inl e, s1)
       | Inr LHS \<Rightarrow> ParseBinOpRHS strtod n 0 LHS s1
     }"
| "ParseParenExpr strtod 0 s = None"
| "ParseParenExpr strtod (Suc n) s =
     do {
       (_, s1) \<leftarrow> getNextToken strtod s;
       (r, s2) \<leftarrow> ParseExpression strtod n s1;
       case r of
         Inl e \<Rightarrow> Some (Inl e, s2)
       | Inr V \<Rightarrow>
           if CurTok s2 \<noteq> 41 then Some (Error (''expected ')'' @ [CHR 0x27]), s2)
           else do { (_, s3) \<leftarrow> getNextToken strtod s2; Some (Inr V, s3) }
     }"
| "ParseIdentifierExpr strtod 0 s = None"
| "ParseIdentifierExpr strtod (Suc n) s =
     (let IdName = IdentifierStr s in
      do {
        (_, s1) \<leftarrow> getNextToken strtod s;
        if CurTok s1 \<noteq> 40 then Some (Inr (VariableExprAST IdName), s1)
        else do {
          (_, s2) \<leftarrow> getNextToken strtod s1;
          (r, s3) \<leftarrow> (if CurTok s2 \<noteq> 41 then ParseIdentifierExpr_args strtod n [] s2
                      else Some (Inr [], s2));
          case r of
            Inl e \<Rightarrow> Some (Inl e, s3)
          | Inr Args \<Rightarrow>
              do { (_, s4) \<leftarrow> getNextToken strtod s3; Some (Inr (CallExprAST IdName Args), s4) }
        }
      })"
| "ParseIdentifierExpr_args strtod 0 Args s = None"
| "ParseIdentifierExpr_args strtod (Suc n) Args s =
     do {
       (r, s1) \<leftarrow> ParseExpression strtod n s;
       case r of
         Inl e \<Rightarrow> Some (Inl e, s1)
       | Inr arg \<Rightarrow>
           (let Args' = Args @ [arg] in
            if CurTok s1 = 41 then Some (Inr Args', s1)
            else if CurTok s1 \<noteq> 44
              then Some (Error ''Expected ')' or ',' in argument list'', s1)
            else do {
              (_, s2) \<leftarrow> getNextToken strtod s1;
              ParseIdentifierExpr_args strtod n Args' s2
            })
     }"

text \<open>\<open>while (getNextToken() == tok_identifier) ArgNames.push_back(IdentifierStr);\<close>\<close>

fun ParsePrototype_args ::
  "(string \<Rightarrow> 'd) \<Rightarrow> nat \<Rightarrow> string list \<Rightarrow> 'd state
     \<Rightarrow> (string list \<times> 'd state) option" where
  "ParsePrototype_args strtod 0 ArgNames s = None"
| "ParsePrototype_args strtod (Suc n) ArgNames s =
     do {
       (t, s1) \<leftarrow> getNextToken strtod s;
       if t = tok_identifier then ParsePrototype_args strtod n (ArgNames @ [IdentifierStr s1]) s1
       else Some (ArgNames, s1)
     }"

definition ParsePrototype ::
  "(string \<Rightarrow> 'd) \<Rightarrow> nat \<Rightarrow> 'd state
     \<Rightarrow> ((string + PrototypeAST) \<times> 'd state) option" where
  "ParsePrototype strtod n s =
     (if CurTok s \<noteq> tok_identifier
      then Some (ErrorP ''Expected function name in prototype'', s)
      else (let FnName = IdentifierStr s in
        do {
          (_, s1) \<leftarrow> getNextToken strtod s;
          if CurTok s1 \<noteq> 40 then Some (ErrorP ''Expected '(' in prototype'', s1)
          else do {
            (ArgNames, s2) \<leftarrow> ParsePrototype_args strtod n [] s1;
            if CurTok s2 \<noteq> 41 then Some (ErrorP ''Expected ')' in protoype'', s2)
            else do {
              (_, s3) \<leftarrow> getNextToken strtod s2;
              Some (Inr (PrototypeAST FnName ArgNames), s3)
            }
          }
        }))"

definition ParseDefintion ::
  "(string \<Rightarrow> 'd) \<Rightarrow> nat \<Rightarrow> 'd state
     \<Rightarrow> ((string + 'd FunctionAST) \<times> 'd state) option" where
  "ParseDefintion strtod n s =
     do {
       (_, s1) \<leftarrow> getNextToken strtod s;
       (p, s2) \<leftarrow> ParsePrototype strtod n s1;
       case p of
         Inl e \<Rightarrow> Some (Inl e, s2)
       | Inr Proto \<Rightarrow>
           do {
             (r, s3) \<leftarrow> ParseExpression strtod n s2;
             case r of
               Inl e \<Rightarrow> Some (Inl e, s3)
             | Inr E \<Rightarrow> Some (Inr (FunctionAST Proto E), s3)
           }
     }"

definition ParseExtern ::
  "(string \<Rightarrow> 'd) \<Rightarrow> nat \<Rightarrow> 'd state
     \<Rightarrow> ((string + PrototypeAST) \<times> 'd state) option" where
  "ParseExtern strtod n s =
     do { (_, s1) \<leftarrow> getNextToken strtod s; ParsePrototype strtod n s1 }"

definition ParseTopLevelExpr ::
  "(string \<Rightarrow> 'd) \<Rightarrow> nat \<Rightarrow> 'd state
     \<Rightarrow> ((string + 'd FunctionAST) \<times> 'd state) option" where
  "ParseTopLevelExpr strtod n s =
     do {
       (r, s1) \<leftarrow> ParseExpression strtod n s;
       case r of
         Inl e \<Rightarrow> Some (Inl e, s1)
       | Inr E \<Rightarrow> Some (Inr (FunctionAST (PrototypeAST [] []) E), s1)
     }"

subsection \<open>Start-up\<close>

text \<open>
  The state in which \<open>main\<close> starts on the standard input \<open>inp\<close>: the statics are
  zero-initialised (\<open>NumVal\<close> is the zero of the type of doubles), \<open>LastChar\<close> is a
  blank; \<open>main\<close> seeds the precedence table and loads the first token.
\<close>

definition initial :: "string \<Rightarrow> ('d::zero) state" where
  "initial inp = \<lparr>input = inp, LastChar = 32, IdentifierStr = [], NumVal = 0, CurTok = 0,
                  BinopPrecedence = Map.empty\<rparr>"

definition seed :: "'d state \<Rightarrow> 'd state" where
  "seed s = s\<lparr>BinopPrecedence :=
               (BinopPrecedence s)(CHR ''<'' \<mapsto> 10, CHR ''+'' \<mapsto> 20,
                                   CHR ''-'' \<mapsto> 20, CHR ''*'' \<mapsto> 40)\<rparr>"

definition start ::
  "(string \<Rightarrow> 'd) \<Rightarrow> string
     \<Rightarrow> ('d::zero) state option" where
  "start strtod inp = map_option snd (getNextToken strtod (seed (initial inp)))"

subsection \<open>The check in front of each error message\<close>

text \<open>
  Each call of \<open>Error\<close> in the parser is guarded by a test of the current token.
  \<open>rejects Str tok\<close> holds when \<open>tok\<close> fails the test that guards the message \<open>Str\<close>:
  it is the token the routine complains about.
\<close>

definition rejects :: "string \<Rightarrow> int \<Rightarrow> bool" where
  "rejects Str tok \<longleftrightarrow>
       (Str = ''unknown token when expecting an expression''
          \<and> tok \<noteq> tok_identifier \<and> tok \<noteq> tok_number \<and> tok \<noteq> 40)
     \<or> (Str = ''Expected function name in prototype'' \<and> tok \<noteq> tok_identifier)
     \<or> (Str = ''Expected '(' in prototype'' \<and> tok \<noteq> 40)
     \<or> (Str = ''Expected ')' in protoype'' \<and> tok \<noteq> tok_identifier \<and> tok \<noteq> 41)
     \<or> (Str = ''expected ')'' @ [CHR 0x27] \<and> tok \<noteq> 41)
     \<or> (Str = ''Expected ')' or ',' in argument list'' \<and> tok \<noteq> 41 \<and> tok \<noteq> 44)"

section \<open>The scanner: basic facts\<close>

lemma comment_loop_Some:
  assumes "comment_loop s = Some s'"
  shows "LastChar s = EOF \<or> LastChar s = 10 \<or> LastChar s = 13"
  by (rule comment_loop.raw_induct [OF _ assms]) (auto split: if_splits)

lemma comment_loop_hash: "LastChar s = 35 \<Longrightarrow> comment_loop s = None"
  using comment_loop_Some [of s] by (cases "comment_loop s") auto

lemma gettok_hash: "LastChar (skip_space s0) = 35 \<Longrightarrow> gettok strtod s0 = None"
  by (subst gettok.simps) (simp add: Let_def isalpha_def isdigit_def comment_loop_hash)





lemma ident_loop_eq:
  "ident_loop s =
     s\<lparr>input := tl (dropWhile (\<lambda>c. isalnum (of_char c)) (input s)),
       LastChar := (case dropWhile (\<lambda>c. isalnum (of_char c)) (input s) of
                      [] \<Rightarrow> EOF | c # _ \<Rightarrow> of_char c),
       IdentifierStr := IdentifierStr s @ takeWhile (\<lambda>c. isalnum (of_char c)) (input s)\<rparr>"
proof (induction s rule: ident_loop.induct)
  case (1 s)
  show ?case
  proof (cases "input s")
    case Nil
    then show ?thesis
      by (subst ident_loop.simps)
         (simp add: getchar_def isalnum_def isalpha_def isdigit_def)
  next
    case (Cons c cs)
    show ?thesis
    proof (cases "isalnum (of_char c)")
      case True
      then show ?thesis
        using Cons "1.IH" [of "of_char c" "s\<lparr>input := cs\<rparr>"
                              "s\<lparr>input := cs, LastChar := of_char c\<rparr>"]
        by (subst ident_loop.simps) (simp add: getchar_def)
    next
      case False
      then show ?thesis
        using Cons by (subst ident_loop.simps) (simp add: getchar_def)
    qed
  qed
qed

lemma of_char_eq_46: "(of_char c = (46::int)) = (c = CHR ''.'')"
proof -
  have "(of_char c = (of_char (CHR ''.'') :: int)) = (c = CHR ''.'')"
    by (rule of_char_eq_iff)
  then show ?thesis by simp
qed

lemma num_loop_eq:
  "num_loop NumStr s =
     (NumStr @ char_of (LastChar s)
        # takeWhile (\<lambda>c. isdigit (of_char c) \<or> c = CHR ''.'') (input s),
      s\<lparr>input := tl (dropWhile (\<lambda>c. isdigit (of_char c) \<or> c = CHR ''.'') (input s)),
        LastChar := (case dropWhile (\<lambda>c. isdigit (of_char c) \<or> c = CHR ''.'') (input s) of
                       [] \<Rightarrow> EOF | c # _ \<Rightarrow> of_char c)\<rparr>)"
proof (induction NumStr s rule: num_loop.induct)
  case (1 NumStr s)
  show ?case
  proof (cases "input s")
    case Nil
    then show ?thesis
      by (subst num_loop.simps) (simp add: getchar_def isdigit_def)
  next
    case (Cons c cs)
    show ?thesis
    proof (cases "isdigit (of_char c) \<or> c = CHR ''.''")
      case True
      then show ?thesis
        using Cons "1.IH" [OF refl, of "of_char c" "s\<lparr>input := cs\<rparr>"
                                      "s\<lparr>input := cs, LastChar := of_char c\<rparr>"]
        by (subst num_loop.simps) (auto simp add: getchar_def of_char_eq_46)
    next
      case False
      then show ?thesis
        using Cons by (subst num_loop.simps) (simp add: getchar_def of_char_eq_46)
    qed
  qed
qed

section \<open>Operator precedence of a character that is not in the table\<close>

text \<open>
  C10. \<open>GetTokPrecedence\<close> is not a pure query. When the current token is an ASCII
  character that the precedence table does not hold, the call inserts that character
  into \<open>BinopPrecedence\<close> with the value 0 and changes nothing else; the table has one
  key more, and a later query of the same token finds the stored 0 and leaves the
  table as it is.
\<close>

theorem GetTokPrecedence_inserts_zero:
  assumes "isascii (CurTok s)" and "BinopPrecedence s (char_of (CurTok s)) = None"
  shows "snd (GetTokPrecedence s)
           = s\<lparr>BinopPrecedence := (BinopPrecedence s)(char_of (CurTok s) \<mapsto> 0)\<rparr>
       \<and> dom (BinopPrecedence (snd (GetTokPrecedence s)))
           = insert (char_of (CurTok s)) (dom (BinopPrecedence s))
       \<and> BinopPrecedence (snd (GetTokPrecedence s)) (char_of (CurTok s)) = Some 0
       \<and> GetTokPrecedence (snd (GetTokPrecedence s)) = (0, snd (GetTokPrecedence s))"
  using assms by (simp add: GetTokPrecedence_def map_subscript_def)

theorem GetTokPrecedence_inserts_zero_witness:
  "isascii (CurTok ((seed (initial [] :: real state))\<lparr>CurTok := 41\<rparr>))
   \<and> BinopPrecedence (seed (initial [] :: real state)) CHR '')'' = None
   \<and> BinopPrecedence (snd (GetTokPrecedence ((seed (initial [] :: real state))\<lparr>CurTok := 41\<rparr>))) CHR '')''
       = Some 0
   \<and> dom (BinopPrecedence (snd (GetTokPrecedence ((seed (initial [] :: real state))\<lparr>CurTok := 41\<rparr>))))
       = {CHR '')'', CHR ''*'', CHR ''-'', CHR ''+'', CHR ''<''}"
proof -
  have c: "char_of (41::int) = CHR '')''" by code_simp
  have a: "isascii (CurTok ((seed (initial [] :: real state))\<lparr>CurTok := 41\<rparr>))"
    by (simp add: isascii_def)
  have n: "BinopPrecedence ((seed (initial [] :: real state))\<lparr>CurTok := 41\<rparr>)
             (char_of (CurTok ((seed (initial [] :: real state))\<lparr>CurTok := 41\<rparr>))) = None"
    by (simp add: c seed_def initial_def)
  show ?thesis
    using GetTokPrecedence_inserts_zero [OF a n] a n
    by (simp add: c) (simp add: seed_def initial_def)
qed

section \<open>Comments\<close>

text \<open>
  C2. The claim is that a comment is skipped: \<open>gettok\<close> on a stream whose next
  character after the blanks is \<open>#\<close> terminates and returns the token after the
  comment line. In the code the loop that should discard the line has an empty body,
  so on the input \<open># comment\<close>, newline, \<open>x\<close> the call never returns, while the same
  \<open>x\<close> without the comment scans to an identifier.
\<close>

theorem gettok_comment_never_returns:
  "gettok strtod (initial (''# comment'' @ [CHR 0x0A] @ ''x'')) = None
   \<and> map_option (\<lambda>(t, s). (t, IdentifierStr s)) (gettok strtod (initial ''x''))
       = Some (tok_identifier, ''x'')"
proof
  have "LastChar (skip_space (initial (''# comment'' @ [CHR 0x0A] @ ''x''))) = 35"
    by code_simp
  then show "gettok strtod (initial (''# comment'' @ [CHR 0x0A] @ ''x'')) = None"
    by (rule gettok_hash)
next
  show "map_option (\<lambda>(t, s). (t, IdentifierStr s)) (gettok strtod (initial ''x''))
          = Some (tok_identifier, ''x'')"
    by code_simp
qed

section \<open>Identifiers and keywords\<close>

text \<open>
  C6. When the next character after the blanks is alphabetic, \<open>gettok\<close> returns. The
  buffer \<open>IdentifierStr\<close> then holds that character followed by the longest run of
  alphanumeric characters of the input, the lookahead is the character after the run
  (or \<open>EOF\<close>), and the token is \<open>tok_def\<close> exactly when the buffer is \<open>def\<close>,
  \<open>tok_extern\<close> exactly when it is \<open>extern\<close>, and \<open>tok_identifier\<close> otherwise.
\<close>

theorem gettok_identifier:
  assumes "isalpha (LastChar (skip_space s0))"
  shows "gettok strtod s0 =
     (let s = skip_space s0;
          buf = char_of (LastChar s) # takeWhile (\<lambda>c. isalnum (of_char c)) (input s);
          rest = dropWhile (\<lambda>c. isalnum (of_char c)) (input s)
      in Some (if buf = ''def'' then tok_def
               else if buf = ''extern'' then tok_extern
               else tok_identifier,
               s\<lparr>input := tl rest,
                 LastChar := (case rest of [] \<Rightarrow> EOF | c # _ \<Rightarrow> of_char c),
                 IdentifierStr := buf\<rparr>))"
  using assms
  by (subst gettok.simps) (simp add: Let_def ident_loop_eq)

theorem gettok_identifier_witness:
  "\<forall>strtod :: string \<Rightarrow> real.
     isalpha (LastChar (skip_space (initial ''  def foo'' :: real state)))
     \<and> map_option (\<lambda>(t, s). (t, IdentifierStr s, LastChar s, input s))
          (gettok strtod (initial ''  def foo'')) = Some (tok_def, ''def'', 32, ''foo'')
     \<and> isalpha (LastChar (skip_space (initial ''extern'' :: real state)))
     \<and> map_option (\<lambda>(t, s). (t, IdentifierStr s, LastChar s, input s))
          (gettok strtod (initial ''extern'')) = Some (tok_extern, ''extern'', EOF, [])
     \<and> isalpha (LastChar (skip_space (initial ''Def9a+x'' :: real state)))
     \<and> map_option (\<lambda>(t, s). (t, IdentifierStr s, LastChar s, input s))
          (gettok strtod (initial ''Def9a+x'')) = Some (tok_identifier, ''Def9a'', 43, ''x'')"
proof
  fix strtod :: "string \<Rightarrow> real"
  have a: "isalpha (LastChar (skip_space (initial ''  def foo'' :: real state)))" by code_simp
  have b: "isalpha (LastChar (skip_space (initial ''extern'' :: real state)))" by code_simp
  have c: "isalpha (LastChar (skip_space (initial ''Def9a+x'' :: real state)))" by code_simp
  have "map_option (\<lambda>(t, s). (t, IdentifierStr s, LastChar s, input s))
          (gettok strtod (initial ''  def foo'')) = Some (tok_def, ''def'', 32, ''foo'')"
    unfolding gettok_identifier [OF a] by code_simp
  moreover
  have "map_option (\<lambda>(t, s). (t, IdentifierStr s, LastChar s, input s))
          (gettok strtod (initial ''extern'')) = Some (tok_extern, ''extern'', EOF, [])"
    unfolding gettok_identifier [OF b] by code_simp
  moreover
  have "map_option (\<lambda>(t, s). (t, IdentifierStr s, LastChar s, input s))
          (gettok strtod (initial ''Def9a+x'')) = Some (tok_identifier, ''Def9a'', 43, ''x'')"
    unfolding gettok_identifier [OF c] by code_simp
  ultimately show
    "isalpha (LastChar (skip_space (initial ''  def foo'' :: real state)))
     \<and> map_option (\<lambda>(t, s). (t, IdentifierStr s, LastChar s, input s))
          (gettok strtod (initial ''  def foo'')) = Some (tok_def, ''def'', 32, ''foo'')
     \<and> isalpha (LastChar (skip_space (initial ''extern'' :: real state)))
     \<and> map_option (\<lambda>(t, s). (t, IdentifierStr s, LastChar s, input s))
          (gettok strtod (initial ''extern'')) = Some (tok_extern, ''extern'', EOF, [])
     \<and> isalpha (LastChar (skip_space (initial ''Def9a+x'' :: real state)))
     \<and> map_option (\<lambda>(t, s). (t, IdentifierStr s, LastChar s, input s))
          (gettok strtod (initial ''Def9a+x'')) = Some (tok_identifier, ''Def9a'', 43, ''x'')"
    using a b c by blast
qed

section \<open>Numbers\<close>

text \<open>
  C7. When the next character after the blanks is a digit or a point, \<open>gettok\<close>
  returns the number token. The text it hands to \<open>strtod\<close> is that character followed
  by the longest run of digits and points of the input, \<open>NumVal\<close> is the value
  \<open>strtod\<close> returns for that text, and the lookahead is the character after the run
  (or \<open>EOF\<close>). No text is rejected: a text with several points is handed to \<open>strtod\<close>
  whole, and the token carries whatever \<open>strtod\<close> makes of it.
\<close>

theorem gettok_number:
  assumes "isdigit (LastChar (skip_space s0)) \<or> LastChar (skip_space s0) = 46"
  shows "gettok strtod s0 =
     (let s = skip_space s0;
          NumStr = char_of (LastChar s)
                     # takeWhile (\<lambda>c. isdigit (of_char c) \<or> c = CHR ''.'') (input s);
          rest = dropWhile (\<lambda>c. isdigit (of_char c) \<or> c = CHR ''.'') (input s)
      in Some (tok_number,
               s\<lparr>input := tl rest,
                 LastChar := (case rest of [] \<Rightarrow> EOF | c # _ \<Rightarrow> of_char c),
                 NumVal := strtod NumStr\<rparr>))"
proof -
  have "\<not> isalpha (LastChar (skip_space s0))"
    using assms by (auto simp: isalpha_def isdigit_def)
  then show ?thesis
    using assms by (subst gettok.simps) (simp add: Let_def num_loop_eq)
qed

theorem gettok_number_witness:
  "\<forall>strtod :: string \<Rightarrow> real.
     (isdigit (LastChar (skip_space (initial '' 12.5.7+x'' :: real state)))
        \<or> LastChar (skip_space (initial '' 12.5.7+x'' :: real state)) = 46)
     \<and> map_option (\<lambda>(t, s). (t, NumVal s, LastChar s, input s))
          (gettok strtod (initial '' 12.5.7+x''))
         = Some (tok_number, strtod ''12.5.7'', 43, ''x'')
     \<and> (isdigit (LastChar (skip_space (initial ''.'' :: real state)))
        \<or> LastChar (skip_space (initial ''.'' :: real state)) = 46)
     \<and> map_option (\<lambda>(t, s). (t, NumVal s, LastChar s, input s))
          (gettok strtod (initial ''.''))
         = Some (tok_number, strtod ''.'', EOF, [])"
proof
  fix strtod :: "string \<Rightarrow> real"
  have a: "isdigit (LastChar (skip_space (initial '' 12.5.7+x'' :: real state)))
             \<or> LastChar (skip_space (initial '' 12.5.7+x'' :: real state)) = 46"
    by code_simp
  have b: "isdigit (LastChar (skip_space (initial ''.'' :: real state)))
             \<or> LastChar (skip_space (initial ''.'' :: real state)) = 46"
    by code_simp
  have "map_option (\<lambda>(t, s). (t, NumVal s, LastChar s, input s))
          (gettok strtod (initial '' 12.5.7+x''))
         = Some (tok_number, strtod ''12.5.7'', 43, ''x'')"
    unfolding gettok_number [OF a] by code_simp
  moreover
  have "map_option (\<lambda>(t, s). (t, NumVal s, LastChar s, input s))
          (gettok strtod (initial ''.''))
         = Some (tok_number, strtod ''.'', EOF, [])"
    unfolding gettok_number [OF b] by code_simp
  ultimately show
    "(isdigit (LastChar (skip_space (initial '' 12.5.7+x'' :: real state)))
        \<or> LastChar (skip_space (initial '' 12.5.7+x'' :: real state)) = 46)
     \<and> map_option (\<lambda>(t, s). (t, NumVal s, LastChar s, input s))
          (gettok strtod (initial '' 12.5.7+x''))
         = Some (tok_number, strtod ''12.5.7'', 43, ''x'')
     \<and> (isdigit (LastChar (skip_space (initial ''.'' :: real state)))
        \<or> LastChar (skip_space (initial ''.'' :: real state)) = 46)
     \<and> map_option (\<lambda>(t, s). (t, NumVal s, LastChar s, input s))
          (gettok strtod (initial ''.''))
         = Some (tok_number, strtod ''.'', EOF, [])"
    using a b by blast
qed

section \<open>End of the stream\<close>



section \<open>The bound on the call depth\<close>

text \<open>
  A parse that returns within a bound returns the same result within every larger
  bound: the bound only cuts runs off, it never changes what a routine returns.
\<close>

lemma Primary_mono:
  assumes "ParsePrimary strtod (Suc n) s = Some r"
    and "\<And>s r. ParseIdentifierExpr strtod n s = Some r \<Longrightarrow> ParseIdentifierExpr strtod k s = Some r"
    and "\<And>s r. ParseParenExpr strtod n s = Some r \<Longrightarrow> ParseParenExpr strtod k s = Some r"
  shows "ParsePrimary strtod (Suc k) s = Some r"
  using assms by (auto split: if_split_asm)

lemma Expression_mono:
  assumes "ParseExpression strtod (Suc n) s = Some r"
    and P: "\<And>s r. ParsePrimary strtod n s = Some r \<Longrightarrow> ParsePrimary strtod k s = Some r"
    and B: "\<And>p l s r. ParseBinOpRHS strtod n p l s = Some r \<Longrightarrow> ParseBinOpRHS strtod k p l s = Some r"
  shows "ParseExpression strtod (Suc k) s = Some r"
proof -
  from assms(1) obtain x s1 where a: "ParsePrimary strtod n s = Some (x, s1)"
    and b: "(case x of Inl e \<Rightarrow> Some (Inl e, s1) | Inr LHS \<Rightarrow> ParseBinOpRHS strtod n 0 LHS s1) = Some r"
    by (auto simp: bind_eq_Some_conv)
  from b B have "(case x of Inl e \<Rightarrow> Some (Inl e, s1) | Inr LHS \<Rightarrow> ParseBinOpRHS strtod k 0 LHS s1) = Some r"
    by (cases x) auto
  with P [OF a] show ?thesis by simp
qed

lemma BinOpRHS_mono:
  assumes "ParseBinOpRHS strtod (Suc n) p l s = Some r"
    and P: "\<And>s r. ParsePrimary strtod n s = Some r \<Longrightarrow> ParsePrimary strtod k s = Some r"
    and B: "\<And>p l s r. ParseBinOpRHS strtod n p l s = Some r \<Longrightarrow> ParseBinOpRHS strtod k p l s = Some r"
  shows "ParseBinOpRHS strtod (Suc k) p l s = Some r"
proof -
  obtain tp s1 where g: "GetTokPrecedence s = (tp, s1)" by (cases "GetTokPrecedence s")
  show ?thesis
  proof (cases "tp < p")
    case True
    with assms(1) g show ?thesis by simp
  next
    case False
    with assms(1) g obtain t s2 x s3 where
      n: "getNextToken strtod s1 = Some (t, s2)" and
      a: "ParsePrimary strtod n s2 = Some (x, s3)" and
      b: "(case x of Inl e \<Rightarrow> Some (Inl e, s3)
           | Inr RHS \<Rightarrow>
               (case GetTokPrecedence s3 of (NextPrec, s4) \<Rightarrow>
                  if tp < NextPrec then
                    ParseBinOpRHS strtod n (tp + 1) RHS s4 \<bind> (\<lambda>(r', s5).
                      case r' of Inl e \<Rightarrow> Some (Inl e, s5)
                      | Inr RHS' \<Rightarrow>
                          ParseBinOpRHS strtod n p (BinaryExprAST (char_of (CurTok s1)) l RHS') s5)
                  else ParseBinOpRHS strtod n p (BinaryExprAST (char_of (CurTok s1)) l RHS) s4)) = Some r"
      by (auto simp: bind_eq_Some_conv Let_def)
    have b': "(case x of Inl e \<Rightarrow> Some (Inl e, s3)
           | Inr RHS \<Rightarrow>
               (case GetTokPrecedence s3 of (NextPrec, s4) \<Rightarrow>
                  if tp < NextPrec then
                    ParseBinOpRHS strtod k (tp + 1) RHS s4 \<bind> (\<lambda>(r', s5).
                      case r' of Inl e \<Rightarrow> Some (Inl e, s5)
                      | Inr RHS' \<Rightarrow>
                          ParseBinOpRHS strtod k p (BinaryExprAST (char_of (CurTok s1)) l RHS') s5)
                  else ParseBinOpRHS strtod k p (BinaryExprAST (char_of (CurTok s1)) l RHS) s4)) = Some r"
    proof (cases x)
      case (Inl e)
      with b show ?thesis by simp
    next
      case (Inr RHS)
      obtain np s4 where g2: "GetTokPrecedence s3 = (np, s4)" by (cases "GetTokPrecedence s3")
      show ?thesis
      proof (cases "tp < np")
        case True
        with b Inr g2 obtain r' s5 where
          c: "ParseBinOpRHS strtod n (tp + 1) RHS s4 = Some (r', s5)" and
          d: "(case r' of Inl e \<Rightarrow> Some (Inl e, s5)
               | Inr RHS' \<Rightarrow>
                   ParseBinOpRHS strtod n p (BinaryExprAST (char_of (CurTok s1)) l RHS') s5) = Some r"
          by (auto simp: bind_eq_Some_conv)
        from d B have "(case r' of Inl e \<Rightarrow> Some (Inl e, s5)
               | Inr RHS' \<Rightarrow>
                   ParseBinOpRHS strtod k p (BinaryExprAST (char_of (CurTok s1)) l RHS') s5) = Some r"
          by (cases r') auto
        with B [OF c] True Inr g2 show ?thesis by simp
      next
        case False
        with b Inr g2 B show ?thesis by simp
      qed
    qed
    from g False n P [OF a] b' show ?thesis by (simp add: Let_def)
  qed
qed


lemma ParenExpr_mono:
  assumes "ParseParenExpr strtod (Suc n) s = Some r"
    and E: "\<And>s r. ParseExpression strtod n s = Some r \<Longrightarrow> ParseExpression strtod k s = Some r"
  shows "ParseParenExpr strtod (Suc k) s = Some r"
proof -
  from assms(1) obtain t s1 x s2 where
    g: "getNextToken strtod s = Some (t, s1)" and
    a: "ParseExpression strtod n s1 = Some (x, s2)" and
    b: "(case x of Inl e \<Rightarrow> Some (Inl e, s2)
         | Inr V \<Rightarrow> if CurTok s2 \<noteq> 41 then Some (Error (''expected ')'' @ [CHR 0x27]), s2)
                    else getNextToken strtod s2 \<bind> (\<lambda>(_, s3). Some (Inr V, s3))) = Some r"
    by (auto simp: bind_eq_Some_conv)
  from g E [OF a] b show ?thesis by simp
qed

lemma IdentifierExpr_args_mono:
  assumes "ParseIdentifierExpr_args strtod (Suc n) a s = Some r"
    and E: "\<And>s r. ParseExpression strtod n s = Some r \<Longrightarrow> ParseExpression strtod k s = Some r"
    and A: "\<And>a s r. ParseIdentifierExpr_args strtod n a s = Some r \<Longrightarrow>
              ParseIdentifierExpr_args strtod k a s = Some r"
  shows "ParseIdentifierExpr_args strtod (Suc k) a s = Some r"
proof -
  from assms(1) obtain x s1 where
    e: "ParseExpression strtod n s = Some (x, s1)" and
    b: "(case x of Inl e \<Rightarrow> Some (Inl e, s1)
         | Inr arg \<Rightarrow>
            (let Args' = a @ [arg] in
             if CurTok s1 = 41 then Some (Inr Args', s1)
             else if CurTok s1 \<noteq> 44
               then Some (Error ''Expected ')' or ',' in argument list'', s1)
             else getNextToken strtod s1 \<bind> (\<lambda>(_, s2). ParseIdentifierExpr_args strtod n Args' s2)))
        = Some r"
    by (auto simp: bind_eq_Some_conv)
  have "(case x of Inl e \<Rightarrow> Some (Inl e, s1)
         | Inr arg \<Rightarrow>
            (let Args' = a @ [arg] in
             if CurTok s1 = 41 then Some (Inr Args', s1)
             else if CurTok s1 \<noteq> 44
               then Some (Error ''Expected ')' or ',' in argument list'', s1)
             else getNextToken strtod s1 \<bind> (\<lambda>(_, s2). ParseIdentifierExpr_args strtod k Args' s2)))
        = Some r"
    using b A by (cases x; cases r) (auto simp: bind_eq_Some_conv Let_def split: if_split_asm)
  with E [OF e] show ?thesis by simp
qed

lemma IdentifierExpr_mono:
  assumes "ParseIdentifierExpr strtod (Suc n) s = Some r"
    and A: "\<And>a s r. ParseIdentifierExpr_args strtod n a s = Some r \<Longrightarrow>
              ParseIdentifierExpr_args strtod k a s = Some r"
  shows "ParseIdentifierExpr strtod (Suc k) s = Some r"
proof -
  from assms(1) obtain t s1 where g: "getNextToken strtod s = Some (t, s1)"
    by (auto simp: bind_eq_Some_conv Let_def)
  show ?thesis
  proof (cases "CurTok s1 \<noteq> 40")
    case True
    with assms(1) g show ?thesis by (simp add: Let_def)
  next
    case False
    with assms(1) g obtain t' s2 where g2: "getNextToken strtod s1 = Some (t', s2)"
      by (auto simp: bind_eq_Some_conv Let_def)
    show ?thesis
    proof (cases "CurTok s2 \<noteq> 41")
      case True
      with assms(1) g False g2 obtain x s3 where
        a: "ParseIdentifierExpr_args strtod n [] s2 = Some (x, s3)" and
        b: "(case x of Inl e \<Rightarrow> Some (Inl e, s3)
             | Inr Args \<Rightarrow> getNextToken strtod s3 \<bind>
                 (\<lambda>(_, s4). Some (Inr (CallExprAST (IdentifierStr s) Args), s4))) = Some r"
        by (auto simp: bind_eq_Some_conv Let_def)
      from g False g2 True A [OF a] b show ?thesis by (simp add: Let_def)
    next
      case c: False
      with assms(1) g False g2 show ?thesis by (simp add: Let_def)
    qed
  qed
qed

lemma expression_routines_mono:
  "(\<forall>s r. ParsePrimary strtod n s = Some r \<longrightarrow> ParsePrimary strtod (n + d) s = Some r) \<and>
   (\<forall>p l s r. ParseBinOpRHS strtod n p l s = Some r \<longrightarrow> ParseBinOpRHS strtod (n + d) p l s = Some r) \<and>
   (\<forall>s r. ParseExpression strtod n s = Some r \<longrightarrow> ParseExpression strtod (n + d) s = Some r) \<and>
   (\<forall>s r. ParseParenExpr strtod n s = Some r \<longrightarrow> ParseParenExpr strtod (n + d) s = Some r) \<and>
   (\<forall>s r. ParseIdentifierExpr strtod n s = Some r \<longrightarrow> ParseIdentifierExpr strtod (n + d) s = Some r) \<and>
   (\<forall>a s r. ParseIdentifierExpr_args strtod n a s = Some r \<longrightarrow>
      ParseIdentifierExpr_args strtod (n + d) a s = Some r)"
proof (induction n)
  case 0
  show ?case by simp
next
  case (Suc n)
  then have
    P: "\<And>s r. ParsePrimary strtod n s = Some r \<Longrightarrow> ParsePrimary strtod (n + d) s = Some r" and
    B: "\<And>p l s r. ParseBinOpRHS strtod n p l s = Some r \<Longrightarrow> ParseBinOpRHS strtod (n + d) p l s = Some r" and
    E: "\<And>s r. ParseExpression strtod n s = Some r \<Longrightarrow> ParseExpression strtod (n + d) s = Some r" and
    R: "\<And>s r. ParseParenExpr strtod n s = Some r \<Longrightarrow> ParseParenExpr strtod (n + d) s = Some r" and
    I: "\<And>s r. ParseIdentifierExpr strtod n s = Some r \<Longrightarrow> ParseIdentifierExpr strtod (n + d) s = Some r" and
    A: "\<And>a s r. ParseIdentifierExpr_args strtod n a s = Some r \<Longrightarrow>
          ParseIdentifierExpr_args strtod (n + d) a s = Some r"
    by auto
  have e: "Suc n + d = Suc (n + d)" by simp
  have "\<And>s r. ParsePrimary strtod (Suc n) s = Some r \<Longrightarrow> ParsePrimary strtod (Suc n + d) s = Some r"
    unfolding e by (rule Primary_mono [OF _ I R])
  moreover
  have "\<And>p l s r. ParseBinOpRHS strtod (Suc n) p l s = Some r \<Longrightarrow>
          ParseBinOpRHS strtod (Suc n + d) p l s = Some r"
    unfolding e by (rule BinOpRHS_mono [OF _ P B])
  moreover
  have "\<And>s r. ParseExpression strtod (Suc n) s = Some r \<Longrightarrow> ParseExpression strtod (Suc n + d) s = Some r"
    unfolding e by (rule Expression_mono [OF _ P B])
  moreover
  have "\<And>s r. ParseParenExpr strtod (Suc n) s = Some r \<Longrightarrow> ParseParenExpr strtod (Suc n + d) s = Some r"
    unfolding e by (rule ParenExpr_mono [OF _ E])
  moreover
  have "\<And>s r. ParseIdentifierExpr strtod (Suc n) s = Some r \<Longrightarrow>
          ParseIdentifierExpr strtod (Suc n + d) s = Some r"
    unfolding e by (rule IdentifierExpr_mono [OF _ A])
  moreover
  have "\<And>a s r. ParseIdentifierExpr_args strtod (Suc n) a s = Some r \<Longrightarrow>
          ParseIdentifierExpr_args strtod (Suc n + d) a s = Some r"
    unfolding e by (rule IdentifierExpr_args_mono [OF _ E A])
  ultimately show ?case by simp
qed

lemma ParseExpression_mono:
  "ParseExpression strtod n s = Some r \<Longrightarrow> n \<le> k \<Longrightarrow> ParseExpression strtod k s = Some r"
  using expression_routines_mono [where strtod = strtod and n = n and d = "k - n"] by (cases r) simp

lemma ParseIdentifierExpr_mono:
  "ParseIdentifierExpr strtod n s = Some r \<Longrightarrow> n \<le> k \<Longrightarrow> ParseIdentifierExpr strtod k s = Some r"
  using expression_routines_mono [where strtod = strtod and n = n and d = "k - n"] by (cases r) simp

lemma ParsePrototype_args_mono:
  "ParsePrototype_args strtod n a s = Some r \<Longrightarrow> n \<le> k \<Longrightarrow> ParsePrototype_args strtod k a s = Some r"
proof (induction n arbitrary: a s k)
  case 0
  then show ?case by simp
next
  case (Suc n)
  from Suc.prems(2) obtain k' where k: "k = Suc k'" and le: "n \<le> k'"
    by (cases k) auto
  from Suc.prems(1) obtain t s1 where
    g: "getNextToken strtod s = Some (t, s1)" and
    b: "(if t = tok_identifier then ParsePrototype_args strtod n (a @ [IdentifierStr s1]) s1
         else Some (a, s1)) = Some r"
    by (auto simp: bind_eq_Some_conv)
  from b Suc.IH [OF _ le] have
    "(if t = tok_identifier then ParsePrototype_args strtod k' (a @ [IdentifierStr s1]) s1
      else Some (a, s1)) = Some r"
    by (auto split: if_split_asm)
  with g k show ?case by simp
qed

lemma ParsePrototype_mono:
  assumes "ParsePrototype strtod n s = Some r" and "n \<le> k"
  shows "ParsePrototype strtod k s = Some r"
proof (cases "CurTok s \<noteq> tok_identifier")
  case True
  with assms(1) show ?thesis by (simp add: ParsePrototype_def)
next
  case False
  with assms(1) obtain t s1 where g: "getNextToken strtod s = Some (t, s1)"
    by (auto simp: ParsePrototype_def Let_def bind_eq_Some_conv)
  show ?thesis
  proof (cases "CurTok s1 \<noteq> 40")
    case True
    with assms(1) False g show ?thesis by (simp add: ParsePrototype_def Let_def)
  next
    case c: False
    with assms(1) False g obtain names s2 where
      a: "ParsePrototype_args strtod n [] s1 = Some (names, s2)" and
      b: "(if CurTok s2 \<noteq> 41 then Some (ErrorP ''Expected ')' in protoype'', s2)
           else getNextToken strtod s2 \<bind>
                  (\<lambda>(_, s3). Some (Inr (PrototypeAST (IdentifierStr s) names), s3))) = Some r"
      by (auto simp: ParsePrototype_def Let_def bind_eq_Some_conv)
    from False g c ParsePrototype_args_mono [OF a assms(2)] b show ?thesis
      by (simp add: ParsePrototype_def Let_def)
  qed
qed

lemma ParseDefintion_mono:
  assumes "ParseDefintion strtod n s = Some r" and "n \<le> k"
  shows "ParseDefintion strtod k s = Some r"
proof -
  from assms(1) obtain t s1 x s2 where
    g: "getNextToken strtod s = Some (t, s1)" and
    a: "ParsePrototype strtod n s1 = Some (x, s2)" and
    b: "(case x of Inl e \<Rightarrow> Some (Inl e, s2)
         | Inr Proto \<Rightarrow> ParseExpression strtod n s2 \<bind> (\<lambda>(r, s3).
             case r of Inl e \<Rightarrow> Some (Inl e, s3)
             | Inr E \<Rightarrow> Some (Inr (FunctionAST Proto E), s3))) = Some r"
    by (auto simp: ParseDefintion_def bind_eq_Some_conv)
  have "(case x of Inl e \<Rightarrow> Some (Inl e, s2)
         | Inr Proto \<Rightarrow> ParseExpression strtod k s2 \<bind> (\<lambda>(r, s3).
             case r of Inl e \<Rightarrow> Some (Inl e, s3)
             | Inr E \<Rightarrow> Some (Inr (FunctionAST Proto E), s3))) = Some r"
    using b assms(2)
    by (cases x) (auto simp: bind_eq_Some_conv dest: ParseExpression_mono)
  with g ParsePrototype_mono [OF a assms(2)] show ?thesis
    by (simp add: ParseDefintion_def)
qed

lemma ParseExtern_mono:
  assumes "ParseExtern strtod n s = Some r" and "n \<le> k"
  shows "ParseExtern strtod k s = Some r"
  using assms
  by (auto simp: ParseExtern_def bind_eq_Some_conv dest: ParsePrototype_mono)

lemma ParseTopLevelExpr_mono:
  assumes "ParseTopLevelExpr strtod n s = Some r" and "n \<le> k"
  shows "ParseTopLevelExpr strtod k s = Some r"
  using assms
  by (auto simp: ParseTopLevelExpr_def bind_eq_Some_conv dest: ParseExpression_mono)

section \<open>Characters that are not operators\<close>

text \<open>
  The statements that run the parser on an input hold for every function \<open>strtod\<close>;
  the type of its values has a zero, which \<open>NumVal\<close> holds at the start, and an
  equality, by which results are compared.
\<close>

text \<open>
  C1. The claim is that \<open>GetTokPrecedence\<close> returns \<open>-1\<close> for an ASCII character that
  is not in the seeded table, so that \<open>ParseBinOpRHS\<close> never takes it for an operator.
  The code tests \<open>TokPrec < 0\<close> on the value \<open>operator[]\<close> has just inserted, which
  is 0: with \<open>)\<close> as the current token the result is 0, and on the input \<open>1;2\<close>
  \<open>ParseBinOpRHS\<close>, called with the minimum precedence 0, takes \<open>;\<close> for a binary
  operator.
\<close>

theorem GetTokPrecedence_absent_is_zero:
  "map_option (\<lambda>s. (CurTok s, BinopPrecedence s CHR '')'', fst (GetTokPrecedence s)))
     (start (strtod :: string \<Rightarrow> 'd::{zero,equal}) '')'') = Some (41, None, 0)
   \<and> map_option fst (start strtod ''1;2'' \<bind> ParseExpression strtod 50)
       = Some (Inr (BinaryExprAST CHR '';'' (NumberExprAST (strtod ''1''))
                      (NumberExprAST (strtod ''2''))))"
  by code_simp

section \<open>Calls\<close>

text \<open>
  C3. The claim is that \<open>foo(1, 2+3)\<close> parses to the call of \<open>foo\<close> with the arguments
  \<open>1\<close> and \<open>2+3\<close>. In the code the comma and the closing parenthesis have precedence 0
  and are taken for binary operators inside the first argument, so
  \<open>ParseIdentifierExpr\<close> fails on this input, with the message of \<open>ParsePrimary\<close>, at
  the end of the stream.
\<close>

theorem ParseIdentifierExpr_call_fails:
  "map_option (\<lambda>s. (CurTok s, IdentifierStr s))
     (start (strtod :: string \<Rightarrow> 'd::{zero,equal}) ''foo(1, 2+3)'')
     = Some (tok_identifier, ''foo'')
   \<and> map_option (\<lambda>(r, s). (r, CurTok s))
        (start strtod ''foo(1, 2+3)'' \<bind> ParseIdentifierExpr strtod 50)
       = Some (Inl ''unknown token when expecting an expression'', tok_eof)"
  by code_simp

text \<open>
  The other half of the claim holds in the code: a token that is neither \<open>)\<close> nor
  \<open>,\<close> after an argument fails with the message of the argument list.
\<close>

lemma ParseIdentifierExpr_missing_separator:
  "map_option (\<lambda>(r, s). (r, CurTok s))
     (start (strtod :: string \<Rightarrow> 'd::{zero,equal}) ''foo(1 2'' \<bind> ParseIdentifierExpr strtod 50)
     = Some (Inl ''Expected ')' or ',' in argument list'', tok_number)"
  by code_simp

section \<open>Precedence and associativity\<close>

text \<open>
  C4. The claim is that every valid expression parses to the tree its precedences and
  associativity give. The parenthesised expression \<open>(1+2)*3\<close> is valid, and the code
  returns no tree for it: the closing parenthesis has precedence 0 and is taken for a
  binary operator, whose right operand \<open>*\<close> is no primary expression.
\<close>

theorem ParseExpression_paren_fails:
  "map_option (\<lambda>(r, s). (r, CurTok s))
     (start (strtod :: string \<Rightarrow> 'd::{zero,equal}) ''(1+2)*3'' \<bind> ParseExpression strtod 50)
     = Some (Inl ''unknown token when expecting an expression'', 42)"
  by code_simp

text \<open>
  The two examples of the claim do parse as it says when the stream ends after them.
\<close>

lemma ParseExpression_mul_binds_tighter:
  "map_option fst
     (start (strtod :: string \<Rightarrow> 'd::{zero,equal}) ''1+2*3'' \<bind> ParseExpression strtod 50)
     = Some (Inr (BinaryExprAST CHR ''+'' (NumberExprAST (strtod ''1''))
                    (BinaryExprAST CHR ''*'' (NumberExprAST (strtod ''2''))
                       (NumberExprAST (strtod ''3'')))))"
  by code_simp

lemma ParseExpression_left_assoc:
  "map_option fst
     (start (strtod :: string \<Rightarrow> 'd::{zero,equal}) ''1-2-3'' \<bind> ParseExpression strtod 50)
     = Some (Inr (BinaryExprAST CHR ''-''
                    (BinaryExprAST CHR ''-'' (NumberExprAST (strtod ''1''))
                       (NumberExprAST (strtod ''2'')))
                    (NumberExprAST (strtod ''3''))))"
  by code_simp

section \<open>Top-level expressions\<close>

text \<open>
  C8. The claim is that a bare expression at top level always parses to the function
  with the empty name and no parameters around it. The parenthesised expression
  \<open>(1+2)\<close> and the call \<open>foo(1)\<close> are bare expressions, and \<open>ParseTopLevelExpr\<close>
  returns no function for either: the closing parenthesis has precedence 0 and is
  taken for a binary operator, and the end of the stream after it is no primary
  expression.
\<close>

theorem ParseTopLevelExpr_paren_fails:
  "map_option (\<lambda>(r, s). (r, CurTok s))
     (start (strtod :: string \<Rightarrow> 'd::{zero,equal}) ''(1+2)'' \<bind> ParseTopLevelExpr strtod 50)
     = Some (Inl ''unknown token when expecting an expression'', tok_eof)
   \<and> map_option (\<lambda>(r, s). (r, CurTok s))
        (start strtod ''foo(1)'' \<bind> ParseTopLevelExpr strtod 50)
       = Some (Inl ''unknown token when expecting an expression'', tok_eof)"
  by code_simp

text \<open>
  Where \<open>ParseExpression\<close> does return an expression, \<open>ParseTopLevelExpr\<close> wraps it
  as the claim says, and every function it returns has this form.
\<close>

lemma ParseTopLevelExpr_wraps:
  "(ParseExpression strtod n s = Some (Inr E, s') \<longrightarrow>
      ParseTopLevelExpr strtod n s = Some (Inr (FunctionAST (PrototypeAST [] []) E), s'))
   \<and> (ParseTopLevelExpr strtod n s = Some (Inr F, s') \<longrightarrow>
      (\<exists>E. F = FunctionAST (PrototypeAST [] []) E
           \<and> ParseExpression strtod n s = Some (Inr E, s')))"
proof (intro conjI impI)
  assume "ParseExpression strtod n s = Some (Inr E, s')"
  then show "ParseTopLevelExpr strtod n s
               = Some (Inr (FunctionAST (PrototypeAST [] []) E), s')"
    by (simp add: ParseTopLevelExpr_def)
next
  assume "ParseTopLevelExpr strtod n s = Some (Inr F, s')"
  then obtain r s1 where e: "ParseExpression strtod n s = Some (r, s1)"
    and k: "(case r of Inl e \<Rightarrow> Some (Inl e, s1)
             | Inr E \<Rightarrow> Some (Inr (FunctionAST (PrototypeAST [] []) E), s1))
            = Some (Inr F, s')"
    by (auto simp: ParseTopLevelExpr_def bind_eq_Some_conv)
  from e k show "\<exists>E. F = FunctionAST (PrototypeAST [] []) E
                    \<and> ParseExpression strtod n s = Some (Inr E, s')"
    by (cases r) auto
qed

lemma ParseTopLevelExpr_sum:
  "map_option fst
     (start (strtod :: string \<Rightarrow> 'd::{zero,equal}) ''1+2'' \<bind> ParseTopLevelExpr strtod 50)
     = Some (Inr (FunctionAST (PrototypeAST [] [])
                    (BinaryExprAST CHR ''+'' (NumberExprAST (strtod ''1''))
                       (NumberExprAST (strtod ''2'')))))"
  by code_simp

section \<open>Failures\<close>

lemma rejects_primary:
  "tok \<noteq> tok_identifier \<Longrightarrow> tok \<noteq> tok_number \<Longrightarrow> tok \<noteq> 40 \<Longrightarrow>
   rejects ''unknown token when expecting an expression'' tok"
  by (simp add: rejects_def)

lemma rejects_paren: "tok \<noteq> 41 \<Longrightarrow> rejects (''expected ')'' @ [CHR 0x27]) tok"
  by (simp add: rejects_def)

lemma rejects_args:
  "tok \<noteq> 41 \<Longrightarrow> tok \<noteq> 44 \<Longrightarrow> rejects ''Expected ')' or ',' in argument list'' tok"
  by (simp add: rejects_def)

lemma rejects_fname:
  "tok \<noteq> tok_identifier \<Longrightarrow> rejects ''Expected function name in prototype'' tok"
  by (simp add: rejects_def)

lemma rejects_lparen: "tok \<noteq> 40 \<Longrightarrow> rejects ''Expected '(' in prototype'' tok"
  by (simp add: rejects_def)

lemma rejects_rparen:
  "tok \<noteq> tok_identifier \<Longrightarrow> tok \<noteq> 41 \<Longrightarrow> rejects ''Expected ')' in protoype'' tok"
  by (simp add: rejects_def)

lemma getNextToken_CurTok: "getNextToken strtod s = Some (t, s1) \<Longrightarrow> CurTok s1 = t"
  by (auto simp: getNextToken_def)

lemma ParseNumber_succeeds: "ParseNumber strtod s \<noteq> Some (Inl m, s')"
  by (auto simp: ParseNumber_def Let_def bind_eq_Some_conv)

lemma case_sum_fail:
  "(case r of Inl e \<Rightarrow> Some (Inl e, s) | Inr v \<Rightarrow> f v) = Some (Inl m, s') \<Longrightarrow>
   (r = Inl m \<and> s = s') \<or> (\<exists>v. r = Inr v \<and> f v = Some (Inl m, s'))"
  by (cases r) auto

subsection \<open>A failed routine leaves the rejected token current\<close>

lemma Primary_fail:
  assumes "ParsePrimary strtod (Suc n) s = Some (Inl m, s')"
    and "\<And>s m s'. ParseIdentifierExpr strtod n s = Some (Inl m, s') \<Longrightarrow> rejects m (CurTok s')"
    and "\<And>s m s'. ParseParenExpr strtod n s = Some (Inl m, s') \<Longrightarrow> rejects m (CurTok s')"
  shows "rejects m (CurTok s')"
  using assms
  by (auto simp: Error_def ParseNumber_succeeds intro: rejects_primary split: if_split_asm)

lemma Expression_fail:
  assumes "ParseExpression strtod (Suc n) s = Some (Inl m, s')"
    and "\<And>s m s'. ParsePrimary strtod n s = Some (Inl m, s') \<Longrightarrow> rejects m (CurTok s')"
    and "\<And>p l s m s'. ParseBinOpRHS strtod n p l s = Some (Inl m, s') \<Longrightarrow> rejects m (CurTok s')"
  shows "rejects m (CurTok s')"
  using assms
  by (auto simp: bind_eq_Some_conv dest!: case_sum_fail)

lemma BinOpRHS_fail:
  assumes "ParseBinOpRHS strtod (Suc n) p l s = Some (Inl m, s')"
    and "\<And>s m s'. ParsePrimary strtod n s = Some (Inl m, s') \<Longrightarrow> rejects m (CurTok s')"
    and "\<And>p l s m s'. ParseBinOpRHS strtod n p l s = Some (Inl m, s') \<Longrightarrow> rejects m (CurTok s')"
  shows "rejects m (CurTok s')"
  using assms
  by (auto simp: bind_eq_Some_conv Let_def dest!: case_sum_fail
           split: prod.split_asm if_split_asm)

lemma ParenExpr_fail:
  assumes "ParseParenExpr strtod (Suc n) s = Some (Inl m, s')"
    and "\<And>s m s'. ParseExpression strtod n s = Some (Inl m, s') \<Longrightarrow> rejects m (CurTok s')"
  shows "rejects m (CurTok s')"
  using assms
  by (auto simp: bind_eq_Some_conv Error_def dest!: case_sum_fail
           intro: rejects_paren [simplified] split: if_split_asm)

lemma IdentifierExpr_args_fail:
  assumes "ParseIdentifierExpr_args strtod (Suc n) a s = Some (Inl m, s')"
    and "\<And>s m s'. ParseExpression strtod n s = Some (Inl m, s') \<Longrightarrow> rejects m (CurTok s')"
    and "\<And>a s m s'. ParseIdentifierExpr_args strtod n a s = Some (Inl m, s') \<Longrightarrow>
           rejects m (CurTok s')"
  shows "rejects m (CurTok s')"
  using assms
  by (auto simp: bind_eq_Some_conv Error_def Let_def dest!: case_sum_fail
           intro: rejects_args split: if_split_asm)

lemma IdentifierExpr_fail:
  assumes "ParseIdentifierExpr strtod (Suc n) s = Some (Inl m, s')"
    and "\<And>a s m s'. ParseIdentifierExpr_args strtod n a s = Some (Inl m, s') \<Longrightarrow>
           rejects m (CurTok s')"
  shows "rejects m (CurTok s')"
  using assms
  by (auto simp: bind_eq_Some_conv Let_def dest!: case_sum_fail split: if_split_asm)

lemma expression_routines_fail:
  "(\<forall>s m s'. ParsePrimary strtod n s = Some (Inl m, s') \<longrightarrow> rejects m (CurTok s')) \<and>
   (\<forall>p l s m s'. ParseBinOpRHS strtod n p l s = Some (Inl m, s') \<longrightarrow> rejects m (CurTok s')) \<and>
   (\<forall>s m s'. ParseExpression strtod n s = Some (Inl m, s') \<longrightarrow> rejects m (CurTok s')) \<and>
   (\<forall>s m s'. ParseParenExpr strtod n s = Some (Inl m, s') \<longrightarrow> rejects m (CurTok s')) \<and>
   (\<forall>s m s'. ParseIdentifierExpr strtod n s = Some (Inl m, s') \<longrightarrow> rejects m (CurTok s')) \<and>
   (\<forall>a s m s'. ParseIdentifierExpr_args strtod n a s = Some (Inl m, s') \<longrightarrow>
      rejects m (CurTok s'))"
proof (induction n)
  case 0
  show ?case by simp
next
  case (Suc n)
  then have
    P: "\<And>s m s'. ParsePrimary strtod n s = Some (Inl m, s') \<Longrightarrow> rejects m (CurTok s')" and
    B: "\<And>p l s m s'. ParseBinOpRHS strtod n p l s = Some (Inl m, s') \<Longrightarrow> rejects m (CurTok s')" and
    E: "\<And>s m s'. ParseExpression strtod n s = Some (Inl m, s') \<Longrightarrow> rejects m (CurTok s')" and
    R: "\<And>s m s'. ParseParenExpr strtod n s = Some (Inl m, s') \<Longrightarrow> rejects m (CurTok s')" and
    I: "\<And>s m s'. ParseIdentifierExpr strtod n s = Some (Inl m, s') \<Longrightarrow> rejects m (CurTok s')" and
    A: "\<And>a s m s'. ParseIdentifierExpr_args strtod n a s = Some (Inl m, s') \<Longrightarrow>
          rejects m (CurTok s')"
    by auto
  have "\<And>s m s'. ParsePrimary strtod (Suc n) s = Some (Inl m, s') \<Longrightarrow> rejects m (CurTok s')"
    by (rule Primary_fail [OF _ I R])
  moreover
  have "\<And>p l s m s'. ParseBinOpRHS strtod (Suc n) p l s = Some (Inl m, s') \<Longrightarrow>
          rejects m (CurTok s')"
    by (rule BinOpRHS_fail [OF _ P B])
  moreover
  have "\<And>s m s'. ParseExpression strtod (Suc n) s = Some (Inl m, s') \<Longrightarrow> rejects m (CurTok s')"
    by (rule Expression_fail [OF _ P B])
  moreover
  have "\<And>s m s'. ParseParenExpr strtod (Suc n) s = Some (Inl m, s') \<Longrightarrow> rejects m (CurTok s')"
    by (rule ParenExpr_fail [OF _ E])
  moreover
  have "\<And>s m s'. ParseIdentifierExpr strtod (Suc n) s = Some (Inl m, s') \<Longrightarrow>
          rejects m (CurTok s')"
    by (rule IdentifierExpr_fail [OF _ A])
  moreover
  have "\<And>a s m s'. ParseIdentifierExpr_args strtod (Suc n) a s = Some (Inl m, s') \<Longrightarrow>
          rejects m (CurTok s')"
    by (rule IdentifierExpr_args_fail [OF _ E A])
  ultimately show ?case by blast
qed

lemma ParsePrimary_fail:
  "ParsePrimary strtod n s = Some (Inl m, s') \<Longrightarrow> rejects m (CurTok s')"
  using expression_routines_fail [where strtod = strtod and n = n] by simp

lemma ParseBinOpRHS_fail:
  "ParseBinOpRHS strtod n ExprPrec LHS s = Some (Inl m, s') \<Longrightarrow> rejects m (CurTok s')"
  using expression_routines_fail [where strtod = strtod and n = n] by simp

lemma ParseParenExpr_fail:
  "ParseParenExpr strtod n s = Some (Inl m, s') \<Longrightarrow> rejects m (CurTok s')"
  using expression_routines_fail [where strtod = strtod and n = n] by simp

lemma ParseIdentifierExpr_fail:
  "ParseIdentifierExpr strtod n s = Some (Inl m, s') \<Longrightarrow> rejects m (CurTok s')"
  using expression_routines_fail [where strtod = strtod and n = n] by simp

lemma ParseExpression_fail:
  "ParseExpression strtod n s = Some (Inl m, s') \<Longrightarrow> rejects m (CurTok s')"
  using expression_routines_fail [where strtod = strtod and n = n] by blast

lemma ParsePrototype_args_stop:
  "ParsePrototype_args strtod n a s = Some (names, s') \<Longrightarrow> CurTok s' \<noteq> tok_identifier"
proof (induction n arbitrary: a s)
  case 0
  then show ?case by simp
next
  case (Suc n)
  then show ?case
    by (auto simp: bind_eq_Some_conv dest: getNextToken_CurTok split: if_split_asm)
qed

lemma ParsePrototype_fail:
  assumes "ParsePrototype strtod n s = Some (Inl m, s')"
  shows "rejects m (CurTok s')"
  using assms
  by (auto simp: ParsePrototype_def Let_def Error_def bind_eq_Some_conv
           intro: rejects_fname rejects_lparen rejects_rparen
           dest: ParsePrototype_args_stop split: if_split_asm)

lemma ParseDefintion_fail:
  assumes "ParseDefintion strtod n s = Some (Inl m, s')"
  shows "rejects m (CurTok s')"
  using assms
  by (auto simp: ParseDefintion_def bind_eq_Some_conv
           dest!: case_sum_fail dest: ParsePrototype_fail ParseExpression_fail)

lemma ParseExtern_fail:
  assumes "ParseExtern strtod n s = Some (Inl m, s')"
  shows "rejects m (CurTok s')"
  using assms
  by (auto simp: ParseExtern_def bind_eq_Some_conv dest: ParsePrototype_fail)

lemma ParseTopLevelExpr_fail:
  assumes "ParseTopLevelExpr strtod n s = Some (Inl m, s')"
  shows "rejects m (CurTok s')"
  using assms
  by (auto simp: ParseTopLevelExpr_def bind_eq_Some_conv
           dest!: case_sum_fail dest: ParseExpression_fail)

subsection \<open>A failed call fails its caller\<close>

lemma Primary_of_IdentifierExpr:
  assumes "CurTok s = tok_identifier"
    and "ParseIdentifierExpr strtod n s = Some (Inl m, s')"
  shows "ParsePrimary strtod (Suc n) s = Some (Inl m, s')"
  using assms by simp

lemma Primary_of_ParenExpr:
  assumes "CurTok s = 40" and "ParseParenExpr strtod n s = Some (Inl m, s')"
  shows "ParsePrimary strtod (Suc n) s = Some (Inl m, s')"
  using assms by simp

lemma Expression_of_Primary:
  "ParsePrimary strtod n s = Some (Inl m, s') \<Longrightarrow>
   ParseExpression strtod (Suc n) s = Some (Inl m, s')"
  by simp

lemma Expression_of_BinOpRHS:
  assumes "ParsePrimary strtod n s = Some (Inr L, s1)"
    and "ParseBinOpRHS strtod n 0 L s1 = Some (Inl m, s')"
  shows "ParseExpression strtod (Suc n) s = Some (Inl m, s')"
  using assms by simp

lemma BinOpRHS_of_Primary:
  assumes "GetTokPrecedence s = (p, s1)" and "\<not> p < ExprPrec"
    and "getNextToken strtod s1 = Some (t, s2)"
    and "ParsePrimary strtod n s2 = Some (Inl m, s')"
  shows "ParseBinOpRHS strtod (Suc n) ExprPrec LHS s = Some (Inl m, s')"
  using assms by simp

lemma BinOpRHS_of_BinOpRHS:
  assumes "GetTokPrecedence s = (p, s1)" and "\<not> p < ExprPrec"
    and "getNextToken strtod s1 = Some (t, s2)"
    and "ParsePrimary strtod n s2 = Some (Inr RHS, s3)"
    and "GetTokPrecedence s3 = (q, s4)" and "p < q"
    and "ParseBinOpRHS strtod n (p + 1) RHS s4 = Some (Inl m, s')"
  shows "ParseBinOpRHS strtod (Suc n) ExprPrec LHS s = Some (Inl m, s')"
  using assms by simp

lemma BinOpRHS_of_next_after_BinOpRHS:
  assumes "GetTokPrecedence s = (p, s1)" and "\<not> p < ExprPrec"
    and "getNextToken strtod s1 = Some (t, s2)"
    and "ParsePrimary strtod n s2 = Some (Inr RHS, s3)"
    and "GetTokPrecedence s3 = (q, s4)" and "p < q"
    and "ParseBinOpRHS strtod n (p + 1) RHS s4 = Some (Inr RHS', s5)"
    and "ParseBinOpRHS strtod n ExprPrec (BinaryExprAST (char_of (CurTok s1)) LHS RHS') s5
           = Some (Inl m, s')"
  shows "ParseBinOpRHS strtod (Suc n) ExprPrec LHS s = Some (Inl m, s')"
  using assms by simp

lemma BinOpRHS_of_next:
  assumes "GetTokPrecedence s = (p, s1)" and "\<not> p < ExprPrec"
    and "getNextToken strtod s1 = Some (t, s2)"
    and "ParsePrimary strtod n s2 = Some (Inr RHS, s3)"
    and "GetTokPrecedence s3 = (q, s4)" and "\<not> p < q"
    and "ParseBinOpRHS strtod n ExprPrec (BinaryExprAST (char_of (CurTok s1)) LHS RHS) s4
           = Some (Inl m, s')"
  shows "ParseBinOpRHS strtod (Suc n) ExprPrec LHS s = Some (Inl m, s')"
  using assms by simp

lemma ParenExpr_of_Expression:
  assumes "getNextToken strtod s = Some (t, s1)"
    and "ParseExpression strtod n s1 = Some (Inl m, s')"
  shows "ParseParenExpr strtod (Suc n) s = Some (Inl m, s')"
  using assms by simp

lemma IdentifierExpr_args_of_Expression:
  "ParseExpression strtod n s = Some (Inl m, s') \<Longrightarrow>
   ParseIdentifierExpr_args strtod (Suc n) Args s = Some (Inl m, s')"
  by simp

lemma IdentifierExpr_args_of_next:
  assumes "ParseExpression strtod n s = Some (Inr a, s1)"
    and "CurTok s1 = 44" and "getNextToken strtod s1 = Some (t, s2)"
    and "ParseIdentifierExpr_args strtod n (Args @ [a]) s2 = Some (Inl m, s')"
  shows "ParseIdentifierExpr_args strtod (Suc n) Args s = Some (Inl m, s')"
  using assms by simp

lemma IdentifierExpr_of_args:
  assumes "getNextToken strtod s = Some (t, s1)" and "CurTok s1 = 40"
    and "getNextToken strtod s1 = Some (t', s2)" and "CurTok s2 \<noteq> 41"
    and "ParseIdentifierExpr_args strtod n [] s2 = Some (Inl m, s')"
  shows "ParseIdentifierExpr strtod (Suc n) s = Some (Inl m, s')"
  using assms by simp

lemma Defintion_of_Prototype:
  assumes "getNextToken strtod s = Some (t, s1)"
    and "ParsePrototype strtod n s1 = Some (Inl m, s')"
  shows "ParseDefintion strtod n s = Some (Inl m, s')"
  using assms by (simp add: ParseDefintion_def)

lemma Defintion_of_Expression:
  assumes "getNextToken strtod s = Some (t, s1)"
    and "ParsePrototype strtod n s1 = Some (Inr Proto, s2)"
    and "ParseExpression strtod n s2 = Some (Inl m, s')"
  shows "ParseDefintion strtod n s = Some (Inl m, s')"
  using assms by (simp add: ParseDefintion_def)

lemma Extern_of_Prototype:
  assumes "getNextToken strtod s = Some (t, s1)"
    and "ParsePrototype strtod n s1 = Some (Inl m, s')"
  shows "ParseExtern strtod n s = Some (Inl m, s')"
  using assms by (simp add: ParseExtern_def)

lemma TopLevelExpr_of_Expression:
  "ParseExpression strtod n s = Some (Inl m, s') \<Longrightarrow>
   ParseTopLevelExpr strtod n s = Some (Inl m, s')"
  by (simp add: ParseTopLevelExpr_def)

subsection \<open>A routine that rejects a token returns in the state it tested\<close>

lemma Primary_rejects:
  assumes "CurTok s \<noteq> tok_identifier" and "CurTok s \<noteq> tok_number" and "CurTok s \<noteq> 40"
  shows "ParsePrimary strtod (Suc n) s
           = Some (Inl ''unknown token when expecting an expression'', s)"
  using assms by (simp add: Error_def)

lemma Prototype_rejects_name:
  "CurTok s \<noteq> tok_identifier \<Longrightarrow>
   ParsePrototype strtod n s = Some (Inl ''Expected function name in prototype'', s)"
  by (simp add: ParsePrototype_def Error_def)

lemma Prototype_rejects_open:
  assumes "CurTok s = tok_identifier" and "getNextToken strtod s = Some (t, s1)"
    and "t \<noteq> 40"
  shows "ParsePrototype strtod n s = Some (Inl ''Expected '(' in prototype'', s1)"
  using assms getNextToken_CurTok [OF assms(2)]
  by (simp add: ParsePrototype_def Error_def)

lemma Prototype_rejects_close:
  assumes "CurTok s = tok_identifier" and "getNextToken strtod s = Some (40, s1)"
    and "ParsePrototype_args strtod n [] s1 = Some (ArgNames, s2)" and "CurTok s2 \<noteq> 41"
  shows "ParsePrototype strtod n s = Some (Inl ''Expected ')' in protoype'', s2)"
  using assms getNextToken_CurTok [OF assms(2)]
  by (simp add: ParsePrototype_def Error_def)

lemma ParenExpr_rejects:
  assumes "getNextToken strtod s = Some (t, s1)"
    and "ParseExpression strtod n s1 = Some (Inr V, s2)"
    and "CurTok s2 \<noteq> 41"
  shows "ParseParenExpr strtod (Suc n) s = Some (Inl (''expected ')'' @ [CHR 0x27]), s2)"
  using assms by (simp add: Error_def)

lemma IdentifierExpr_args_rejects:
  assumes "ParseExpression strtod n s = Some (Inr a, s1)"
    and "CurTok s1 \<noteq> 41" and "CurTok s1 \<noteq> 44"
  shows "ParseIdentifierExpr_args strtod (Suc n) Args s
           = Some (Inl ''Expected ')' or ',' in argument list'', s1)"
  using assms by (simp add: Error_def)

text \<open>
  C5. For every parse routine and every input:
  \<^item> when a call made by a routine fails, the routine fails with the same message and
    in the state the call left, so no node is built around a failure. The first
    sixteen conjuncts say so for every call of a parse routine in the parser: the two
    calls \<open>ParsePrimary\<close> dispatches to, the two calls of \<open>ParseExpression\<close>, the
    two calls and the two continuations of the loop of \<open>ParseBinOpRHS\<close>, the call
    of \<open>ParseParenExpr\<close>, the call and the continuation of the argument loop, the
    call of that loop by \<open>ParseIdentifierExpr\<close>, the two calls of \<open>ParseDefintion\<close>,
    the call of \<open>ParseExtern\<close> and the call of \<open>ParseTopLevelExpr\<close>.
    \<open>ParseNumber\<close>, the remaining call, never fails (the seventeenth conjunct);
  \<^item> a routine that finds a token it cannot accept fails in the very state in which it
    tested the token (the next six conjuncts, one for each call of \<open>Error\<close>);
  \<^item> hence whenever a routine fails, the current token is still the token that the
    test belonging to the message rejects (the last nine conjuncts, one for each
    routine).
\<close>

theorem parse_failure_propagates:
  "(CurTok s = tok_identifier \<and> ParseIdentifierExpr strtod n s = Some (Inl m, s')
      \<longrightarrow> ParsePrimary strtod (Suc n) s = Some (Inl m, s'))
   \<and> (CurTok s = 40 \<and> ParseParenExpr strtod n s = Some (Inl m, s')
      \<longrightarrow> ParsePrimary strtod (Suc n) s = Some (Inl m, s'))
   \<and> (ParsePrimary strtod n s = Some (Inl m, s')
      \<longrightarrow> ParseExpression strtod (Suc n) s = Some (Inl m, s'))
   \<and> (ParsePrimary strtod n s = Some (Inr L, s1)
        \<and> ParseBinOpRHS strtod n 0 L s1 = Some (Inl m, s')
      \<longrightarrow> ParseExpression strtod (Suc n) s = Some (Inl m, s'))
   \<and> (GetTokPrecedence s = (p, s1) \<and> \<not> p < ExprPrec
        \<and> getNextToken strtod s1 = Some (t, s2)
        \<and> ParsePrimary strtod n s2 = Some (Inl m, s')
      \<longrightarrow> ParseBinOpRHS strtod (Suc n) ExprPrec LHS s = Some (Inl m, s'))
   \<and> (GetTokPrecedence s = (p, s1) \<and> \<not> p < ExprPrec
        \<and> getNextToken strtod s1 = Some (t, s2)
        \<and> ParsePrimary strtod n s2 = Some (Inr RHS, s3)
        \<and> GetTokPrecedence s3 = (q, s4) \<and> p < q
        \<and> ParseBinOpRHS strtod n (p + 1) RHS s4 = Some (Inl m, s')
      \<longrightarrow> ParseBinOpRHS strtod (Suc n) ExprPrec LHS s = Some (Inl m, s'))
   \<and> (GetTokPrecedence s = (p, s1) \<and> \<not> p < ExprPrec
        \<and> getNextToken strtod s1 = Some (t, s2)
        \<and> ParsePrimary strtod n s2 = Some (Inr RHS, s3)
        \<and> GetTokPrecedence s3 = (q, s4) \<and> p < q
        \<and> ParseBinOpRHS strtod n (p + 1) RHS s4 = Some (Inr RHS', s5)
        \<and> ParseBinOpRHS strtod n ExprPrec
             (BinaryExprAST (char_of (CurTok s1)) LHS RHS') s5 = Some (Inl m, s')
      \<longrightarrow> ParseBinOpRHS strtod (Suc n) ExprPrec LHS s = Some (Inl m, s'))
   \<and> (GetTokPrecedence s = (p, s1) \<and> \<not> p < ExprPrec
        \<and> getNextToken strtod s1 = Some (t, s2)
        \<and> ParsePrimary strtod n s2 = Some (Inr RHS, s3)
        \<and> GetTokPrecedence s3 = (q, s4) \<and> \<not> p < q
        \<and> ParseBinOpRHS strtod n ExprPrec
             (BinaryExprAST (char_of (CurTok s1)) LHS RHS) s4 = Some (Inl m, s')
      \<longrightarrow> ParseBinOpRHS strtod (Suc n) ExprPrec LHS s = Some (Inl m, s'))
   \<and> (getNextToken strtod s = Some (t, s1)
        \<and> ParseExpression strtod n s1 = Some (Inl m, s')
      \<longrightarrow> ParseParenExpr strtod (Suc n) s = Some (Inl m, s'))
   \<and> (ParseExpression strtod n s = Some (Inl m, s')
      \<longrightarrow> ParseIdentifierExpr_args strtod (Suc n) Args s = Some (Inl m, s'))
   \<and> (ParseExpression strtod n s = Some (Inr a, s1) \<and> CurTok s1 = 44
        \<and> getNextToken strtod s1 = Some (t, s2)
        \<and> ParseIdentifierExpr_args strtod n (Args @ [a]) s2 = Some (Inl m, s')
      \<longrightarrow> ParseIdentifierExpr_args strtod (Suc n) Args s = Some (Inl m, s'))
   \<and> (getNextToken strtod s = Some (t, s1) \<and> CurTok s1 = 40
        \<and> getNextToken strtod s1 = Some (t', s2) \<and> CurTok s2 \<noteq> 41
        \<and> ParseIdentifierExpr_args strtod n [] s2 = Some (Inl m, s')
      \<longrightarrow> ParseIdentifierExpr strtod (Suc n) s = Some (Inl m, s'))
   \<and> (getNextToken strtod s = Some (t, s1)
        \<and> ParsePrototype strtod n s1 = Some (Inl m, s')
      \<longrightarrow> ParseDefintion strtod n s = Some (Inl m, s'))
   \<and> (getNextToken strtod s = Some (t, s1)
        \<and> ParsePrototype strtod n s1 = Some (Inr Proto, s2)
        \<and> ParseExpression strtod n s2 = Some (Inl m, s')
      \<longrightarrow> ParseDefintion strtod n s = Some (Inl m, s'))
   \<and> (getNextToken strtod s = Some (t, s1)
        \<and> ParsePrototype strtod n s1 = Some (Inl m, s')
      \<longrightarrow> ParseExtern strtod n s = Some (Inl m, s'))
   \<and> (ParseExpression strtod n s = Some (Inl m, s')
      \<longrightarrow> ParseTopLevelExpr strtod n s = Some (Inl m, s'))
   \<and> ParseNumber strtod s \<noteq> Some (Inl m, s')
   \<and> (CurTok s \<noteq> tok_identifier \<and> CurTok s \<noteq> tok_number \<and> CurTok s \<noteq> 40
      \<longrightarrow> ParsePrimary strtod (Suc n) s
            = Some (Inl ''unknown token when expecting an expression'', s))
   \<and> (CurTok s \<noteq> tok_identifier
      \<longrightarrow> ParsePrototype strtod n s
            = Some (Inl ''Expected function name in prototype'', s))
   \<and> (CurTok s = tok_identifier \<and> getNextToken strtod s = Some (t, s1) \<and> t \<noteq> 40
      \<longrightarrow> ParsePrototype strtod n s = Some (Inl ''Expected '(' in prototype'', s1))
   \<and> (CurTok s = tok_identifier \<and> getNextToken strtod s = Some (40, s1)
        \<and> ParsePrototype_args strtod n [] s1 = Some (ArgNames, s2) \<and> CurTok s2 \<noteq> 41
      \<longrightarrow> ParsePrototype strtod n s = Some (Inl ''Expected ')' in protoype'', s2))
   \<and> (getNextToken strtod s = Some (t, s1)
        \<and> ParseExpression strtod n s1 = Some (Inr V, s2) \<and> CurTok s2 \<noteq> 41
      \<longrightarrow> ParseParenExpr strtod (Suc n) s
            = Some (Inl (''expected ')'' @ [CHR 0x27]), s2))
   \<and> (ParseExpression strtod n s = Some (Inr a, s1) \<and> CurTok s1 \<noteq> 41 \<and> CurTok s1 \<noteq> 44
      \<longrightarrow> ParseIdentifierExpr_args strtod (Suc n) Args s
            = Some (Inl ''Expected ')' or ',' in argument list'', s1))
   \<and> (ParsePrimary strtod n s = Some (Inl m, s') \<longrightarrow> rejects m (CurTok s'))
   \<and> (ParseBinOpRHS strtod n ExprPrec LHS s = Some (Inl m, s') \<longrightarrow> rejects m (CurTok s'))
   \<and> (ParseExpression strtod n s = Some (Inl m, s') \<longrightarrow> rejects m (CurTok s'))
   \<and> (ParseParenExpr strtod n s = Some (Inl m, s') \<longrightarrow> rejects m (CurTok s'))
   \<and> (ParseIdentifierExpr strtod n s = Some (Inl m, s') \<longrightarrow> rejects m (CurTok s'))
   \<and> (ParsePrototype strtod n s = Some (Inl m, s') \<longrightarrow> rejects m (CurTok s'))
   \<and> (ParseDefintion strtod n s = Some (Inl m, s') \<longrightarrow> rejects m (CurTok s'))
   \<and> (ParseExtern strtod n s = Some (Inl m, s') \<longrightarrow> rejects m (CurTok s'))
   \<and> (ParseTopLevelExpr strtod n s = Some (Inl m, s') \<longrightarrow> rejects m (CurTok s'))"
  by (intro conjI impI; (elim conjE)?;
      (rule Primary_of_IdentifierExpr Primary_of_ParenExpr Expression_of_Primary
            Expression_of_BinOpRHS BinOpRHS_of_Primary BinOpRHS_of_BinOpRHS
            BinOpRHS_of_next_after_BinOpRHS BinOpRHS_of_next ParenExpr_of_Expression
            IdentifierExpr_args_of_Expression IdentifierExpr_args_of_next
            IdentifierExpr_of_args Defintion_of_Prototype Defintion_of_Expression
            Extern_of_Prototype TopLevelExpr_of_Expression ParseNumber_succeeds
            Primary_rejects Prototype_rejects_name Prototype_rejects_open
            Prototype_rejects_close ParenExpr_rejects IdentifierExpr_args_rejects
            ParsePrimary_fail ParseBinOpRHS_fail ParseExpression_fail ParseParenExpr_fail
            ParseIdentifierExpr_fail ParsePrototype_fail ParseDefintion_fail
            ParseExtern_fail ParseTopLevelExpr_fail;
       assumption))

theorem parse_failure_propagates_witness:
  "\<forall>strtod :: string \<Rightarrow> real.
     (\<exists>s s1 s2 s3.
        start strtod ''def foo('' = Some s
        \<and> getNextToken strtod s = Some (tok_identifier, s1)
        \<and> CurTok s1 = tok_identifier
        \<and> getNextToken strtod s1 = Some (40, s2)
        \<and> ParsePrototype_args strtod 50 [] s2 = Some ([], s3)
        \<and> CurTok s3 = tok_eof
        \<and> ParsePrototype strtod 50 s1 = Some (Inl ''Expected ')' in protoype'', s3)
        \<and> ParseDefintion strtod 50 s = Some (Inl ''Expected ')' in protoype'', s3)
        \<and> rejects ''Expected ')' in protoype'' (CurTok s3))
     \<and> (\<exists>s s1.
        start strtod ''extern ('' = Some s
        \<and> getNextToken strtod s = Some (40, s1)
        \<and> ParsePrototype strtod 50 s1
            = Some (Inl ''Expected function name in prototype'', s1)
        \<and> ParseExtern strtod 50 s = Some (Inl ''Expected function name in prototype'', s1)
        \<and> rejects ''Expected function name in prototype'' (CurTok s1))"
proof (intro allI conjI)
  fix strtod :: "string \<Rightarrow> real"
  note T = parse_failure_propagates [where strtod = strtod and n = 50]
  have "map_option (\<lambda>(t1, t2, a, s3). (t1, t2, a, CurTok s3))
          (start strtod ''def foo('' \<bind> (\<lambda>s. getNextToken strtod s \<bind> (\<lambda>(t1, s1).
             getNextToken strtod s1 \<bind> (\<lambda>(t2, s2).
               ParsePrototype_args strtod 50 [] s2 \<bind> (\<lambda>(a, s3). Some (t1, t2, a, s3))))))
          = Some (tok_identifier, 40, [], tok_eof)"
    by code_simp
  then obtain s s1 s2 s3 where
    s: "start strtod ''def foo('' = Some s" and
    g1: "getNextToken strtod s = Some (tok_identifier, s1)" and
    g2: "getNextToken strtod s1 = Some (40, s2)" and
    a: "ParsePrototype_args strtod 50 [] s2 = Some ([], s3)" and
    c: "CurTok s3 = tok_eof"
    by (auto simp: bind_eq_Some_conv)
  have c1: "CurTok s1 = tok_identifier"
    using g1 by (rule getNextToken_CurTok)
  have c3: "CurTok s3 \<noteq> 41"
    using c by simp
  have p: "ParsePrototype strtod 50 s1 = Some (Inl ''Expected ')' in protoype'', s3)"
    using T [where s = s1 and ?s1.0 = s2 and ?s2.0 = s3 and ArgNames = "[]"]
      c1 g2 a c3 by simp
  have d: "ParseDefintion strtod 50 s = Some (Inl ''Expected ')' in protoype'', s3)"
    using T [where s = s and t = tok_identifier and ?s1.0 = s1
               and m = "''Expected ')' in protoype''" and s' = s3] g1 p by simp
  have r: "rejects ''Expected ')' in protoype'' (CurTok s3)"
    using T [where s = s and m = "''Expected ')' in protoype''" and s' = s3] d
    by simp
  from s g1 c1 g2 a c p d r show
    "\<exists>s s1 s2 s3.
        start strtod ''def foo('' = Some s
        \<and> getNextToken strtod s = Some (tok_identifier, s1)
        \<and> CurTok s1 = tok_identifier
        \<and> getNextToken strtod s1 = Some (40, s2)
        \<and> ParsePrototype_args strtod 50 [] s2 = Some ([], s3)
        \<and> CurTok s3 = tok_eof
        \<and> ParsePrototype strtod 50 s1 = Some (Inl ''Expected ')' in protoype'', s3)
        \<and> ParseDefintion strtod 50 s = Some (Inl ''Expected ')' in protoype'', s3)
        \<and> rejects ''Expected ')' in protoype'' (CurTok s3)"
    by blast
next
  fix strtod :: "string \<Rightarrow> real"
  note T = parse_failure_propagates [where strtod = strtod and n = 50]
  have "map_option fst (start strtod ''extern ('' \<bind> getNextToken strtod) = Some 40"
    by code_simp
  then obtain s s1 where
    s: "start strtod ''extern ('' = Some s" and
    g: "getNextToken strtod s = Some (40, s1)"
    by (auto simp: bind_eq_Some_conv)
  have c: "CurTok s1 \<noteq> tok_identifier"
    using getNextToken_CurTok [OF g] by simp
  have p: "ParsePrototype strtod 50 s1
             = Some (Inl ''Expected function name in prototype'', s1)"
    using T [where s = s1] c by simp
  have e: "ParseExtern strtod 50 s = Some (Inl ''Expected function name in prototype'', s1)"
    using T [where s = s and t = 40 and ?s1.0 = s1
               and m = "''Expected function name in prototype''" and s' = s1] g p by simp
  have r: "rejects ''Expected function name in prototype'' (CurTok s1)"
    using T [where s = s and m = "''Expected function name in prototype''" and s' = s1] e
    by simp
  from s g p e r show
    "\<exists>s s1.
        start strtod ''extern ('' = Some s
        \<and> getNextToken strtod s = Some (40, s1)
        \<and> ParsePrototype strtod 50 s1
            = Some (Inl ''Expected function name in prototype'', s1)
        \<and> ParseExtern strtod 50 s = Some (Inl ''Expected function name in prototype'', s1)
        \<and> rejects ''Expected function name in prototype'' (CurTok s1)"
    by blast
qed

end
